theory Spec2Isabelle
  imports Complex_Main "HOL-Library.Sublist"
begin

section \<open>Text primitives of the Python source\<close>

text \<open>
  Python strings are modelled as \<open>string\<close>: a character is one of the 256 code points
  U+0000 to U+00FF. The case mappings and the whitespace class are those of Python 3
  on these code points.
\<close>

text \<open>
  \<open>str.lower\<close> on one character: the letters A to Z and the capital letters U+00C0 to
  U+00DE (the multiplication sign U+00D7 is not a letter) move up by 32.
\<close>

definition lower_char :: "char \<Rightarrow> char" where
  "lower_char c =
     (let n = (of_char c :: nat)
      in if (65 \<le> n \<and> n \<le> 90) \<or> (192 \<le> n \<and> n \<le> 222 \<and> n \<noteq> 215)
         then char_of (n + 32) else c)"

definition lower :: "string \<Rightarrow> string" where
  "lower s = map lower_char s"

text \<open>
  The title-case form of one character, as \<open>str.capitalize\<close> uses it for the first
  character (Python 3.8 and later): the letters a to z and the small letters U+00E0 to
  U+00FE (the division sign U+00F7 is not a letter) move down by 32, and the sharp s
  U+00DF becomes the two characters "Ss". The capitals of the micro sign U+00B5 and of
  the y with diaeresis U+00FF are U+039C and U+0178, which no \<open>char\<close> denotes: the model
  leaves these two characters as they are, and \<open>has_capital\<close> says of a text that it
  does not begin with one of them.
\<close>

definition title_char :: "char \<Rightarrow> string" where
  "title_char c =
     (let n = (of_char c :: nat)
      in if (97 \<le> n \<and> n \<le> 122) \<or> (224 \<le> n \<and> n \<le> 254 \<and> n \<noteq> 247)
         then [char_of (n - 32)]
         else if n = 223 then ''Ss'' else [c])"


text \<open>\<open>str.capitalize\<close>: first character in title case, the rest lower-cased.\<close>

fun capitalize :: "string \<Rightarrow> string" where
  "capitalize [] = []"
| "capitalize (c # cs) = title_char c @ map lower_char cs"

text \<open>
  \<open>str.isspace\<close> on one character: TAB to CR, FS to US, the blank, the next-line
  control U+0085 and the no-break space U+00A0. \<open>str.strip\<close> removes these at both ends.
\<close>

definition is_space :: "char \<Rightarrow> bool" where
  "is_space c =
     (let n = (of_char c :: nat)
      in (9 \<le> n \<and> n \<le> 13) \<or> (28 \<le> n \<and> n \<le> 32) \<or> n = 133 \<or> n = 160)"

definition strip :: "string \<Rightarrow> string" where
  "strip s = rev (dropWhile is_space (rev (dropWhile is_space s)))"

text \<open>
  Two characters are the same letter up to case when they are equal or the first is a
  capital letter of ASCII and the second the small letter 32 code points above it.
\<close>

definition same_letter :: "char \<Rightarrow> char \<Rightarrow> bool" where
  "same_letter a b =
     (a = b \<or> (65 \<le> (of_char a :: nat) \<and> (of_char a :: nat) \<le> 90 \<and>
               (of_char b :: nat) = of_char a + 32))"

text \<open>\<open>s.split('\n')\<close>: never empty, one more piece than there are newlines.\<close>

fun split_lines :: "string \<Rightarrow> string list" where
  "split_lines [] = [[]]"
| "split_lines (c # cs) =
     (if c = CHR 0x0A then [] # split_lines cs
      else (case split_lines cs of l # ls \<Rightarrow> (c # l) # ls | [] \<Rightarrow> [[c]]))"

text \<open>\<open>kw in text\<close> on strings: \<open>kw\<close> occurs as a contiguous piece of \<open>text\<close>.\<close>

fun starts_with :: "string \<Rightarrow> string \<Rightarrow> bool" where
  "starts_with [] t = True"
| "starts_with (k # ks) [] = False"
| "starts_with (k # ks) (c # cs) = (k = c \<and> starts_with ks cs)"

fun contains :: "string \<Rightarrow> string \<Rightarrow> bool" where
  "contains kw [] = (kw = [])"
| "contains kw (c # cs) = (starts_with kw (c # cs) \<or> contains kw cs)"

section \<open>Rule-based classifier\<close>

text \<open>The table \<open>levels\<close> of \<open>rule_based_triage\<close>, in the order of the source.\<close>

definition levels :: "(string \<times> string list) list" where
  "levels =
     [(''Critical'', [''seizure'', ''loss of consciousness'', ''coma'']),
      (''Urgent'', [''vomiting'', ''blurred vision'', ''slurred speech'']),
      (''Moderate'', [''headache'', ''neck pain'']),
      (''Low'', [''dizziness'', ''mild pain'', ''tiredness''])]"

text \<open>The \<open>for\<close> loop over the table: the first group with a keyword in the text wins.\<close>

fun scan_levels :: "(string \<times> string list) list \<Rightarrow> string \<Rightarrow> string" where
  "scan_levels [] text = ''Moderate''"
| "scan_levels ((level, keywords) # rest) text =
     (if list_ex (\<lambda>keyword. contains keyword text) keywords then level
      else scan_levels rest text)"

definition rule_based_triage :: "string \<Rightarrow> string" where
  "rule_based_triage symptoms_text = scan_levels levels (lower symptoms_text)"

section \<open>Values, rows and errors\<close>

text \<open>
  JSON values as the store and the request bodies carry them, a row (a Python \<open>dict\<close>
  with string keys) as an association list, and the exceptions of the source as values.
\<close>

datatype val = VNone | VBool bool | VInt int | VStr string | VDict "(string \<times> val) list"

type_synonym row = "(string \<times> val) list"

datatype reject = MinLength | MaxLength | ValueError string | StrType

text \<open>
  \<open>ValidationError\<close> is pydantic's, with the constraint that failed; \<open>HTTPException\<close>
  carries the status code of the answer.
\<close>

datatype error =
    Exception string
  | IndexError
  | KeyError string
  | TypeError
  | ZeroDivisionError
  | ValidationError reject
  | HTTPException nat

text \<open>\<open>d[k]\<close> and \<open>d.get(k, default)\<close> on a row, \<open>xs[0]\<close> on a list, and truthiness.\<close>

definition getitem :: "row \<Rightarrow> string \<Rightarrow> error + val" where
  "getitem d k = (case map_of d k of None \<Rightarrow> Inl (KeyError k) | Some v \<Rightarrow> Inr v)"

definition get_default :: "row \<Rightarrow> string \<Rightarrow> val \<Rightarrow> val" where
  "get_default d k dflt = (case map_of d k of None \<Rightarrow> dflt | Some v \<Rightarrow> v)"

definition first_item :: "'a list \<Rightarrow> error + 'a" where
  "first_item xs = (case xs of [] \<Rightarrow> Inl IndexError | x # _ \<Rightarrow> Inr x)"

fun truthy :: "val \<Rightarrow> bool" where
  "truthy VNone = False"
| "truthy (VBool b) = b"
| "truthy (VInt i) = (i \<noteq> 0)"
| "truthy (VStr s) = (s \<noteq> [])"
| "truthy (VDict d) = (d \<noteq> [])"

section \<open>AI classifier adapter\<close>

text \<open>
  The provider is a parameter: it maps the user message to the text
  \<open>chat_completion.choices[0].message.content\<close>, or fails. A failure is any exception
  raised before that text is in hand, and is given by its message \<open>str(e)\<close>, the only
  part of it that the adapter reads. The system prompt, the model name and the
  temperature are constants of the call and do not enter the parsing.
\<close>

type_synonym provider = "string \<Rightarrow> string + string"

definition user_message :: "string \<Rightarrow> string" where
  "user_message symptoms_text =
     ''A patient describes their symptoms: '' @ [CHR 0x22] @ symptoms_text @ [CHR 0x22]"

definition valid_levels :: "string list" where
  "valid_levels = [''critical'', ''urgent'', ''moderate'', ''low'']"

text \<open>First loop over \<open>reversed(lines)\<close>: a line that is a level once stripped and lowered.\<close>

fun find_level :: "string list \<Rightarrow> string option" where
  "find_level [] = None"
| "find_level (line # rest) =
     (let line_clean = lower (strip line)
      in if line_clean \<in> set valid_levels then Some (capitalize line_clean)
         else find_level rest)"

text \<open>Second loop over \<open>reversed(lines)\<close>: a line with something left after stripping.\<close>

fun find_text :: "string list \<Rightarrow> string option" where
  "find_text [] = None"
| "find_text (line # rest) =
     (if strip line \<noteq> [] then Some (capitalize (lower (strip line)))
      else find_text rest)"

definition extract_level :: "string \<Rightarrow> string" where
  "extract_level result =
     (let lines = split_lines result
      in case find_level (rev lines) of
           Some level \<Rightarrow> level
         | None \<Rightarrow>
             (case find_text (rev lines) of
                Some line \<Rightarrow> line
              | None \<Rightarrow> capitalize result))"

text \<open>
  Every exception inside the \<open>try\<close>, the one raised there for an empty answer included,
  is re-raised as \<open>Exception(f"Groq API error: {str(e)}")\<close>; \<open>groq_error\<close> takes the
  message \<open>str(e)\<close>.
\<close>

definition groq_error :: "string \<Rightarrow> error" where
  "groq_error message = Exception (''Groq API error: '' @ message)"

definition call_groq :: "provider \<Rightarrow> string \<Rightarrow> error + string" where
  "call_groq provider symptoms_text =
     (case provider (user_message symptoms_text) of
        Inl message \<Rightarrow> Inl (groq_error message)
      | Inr content \<Rightarrow>
          (let result = strip content
           in if result = [] then Inl (groq_error ''No response from Groq AI'')
              else Inr (extract_level result)))"



section \<open>Persistence adapter\<close>

text \<open>
  The store is a parameter: \<open>insert\<close> of a row into a table answers with the list
  \<open>data.data\<close> or raises. \<open>inserted\<close> is what the source reads from the answer:
  \<open>data.data[0]['id']\<close>, \<open>data.data[0]['created_at']\<close> and \<open>data.data[0]\<close>.
\<close>

type_synonym store = "string \<Rightarrow> row \<Rightarrow> error + row list"

definition inserted :: "error + row list \<Rightarrow> error + (val \<times> val \<times> row)" where
  "inserted answer =
     (case answer of
        Inl e \<Rightarrow> Inl e
      | Inr rows \<Rightarrow>
          (case first_item rows of
             Inl e \<Rightarrow> Inl e
           | Inr r \<Rightarrow>
               (case getitem r ''id'' of
                  Inl e \<Rightarrow> Inl e
                | Inr i \<Rightarrow>
                    (case getitem r ''created_at'' of
                       Inl e \<Rightarrow> Inl e
                     | Inr t \<Rightarrow> Inr (i, t, r)))))"

record stored_out =
  record_id :: val
  timestamp :: val
  data :: val
  error :: "string option"

section \<open>Triage orchestrator\<close>

record triage_out = stored_out +
  triage_level :: string

text \<open>The label chosen by lines 259 to 266 of \<open>triage_patient\<close>.\<close>

definition choose_level :: "provider \<Rightarrow> string \<Rightarrow> bool \<Rightarrow> string" where
  "choose_level provider symptoms_text use_ai =
     (if use_ai then
        (case call_groq provider symptoms_text of
           Inr level \<Rightarrow> level
         | Inl e \<Rightarrow> rule_based_triage symptoms_text)
      else rule_based_triage symptoms_text)"

text \<open>A missing \<open>patient_info\<close> is the empty dictionary.\<close>

definition or_empty :: "row option \<Rightarrow> row" where
  "or_empty patient_info = (case patient_info of None \<Rightarrow> [] | Some d \<Rightarrow> d)"

text \<open>The row handed to the store's \<open>insert\<close> on table \<open>triage\<close>.\<close>

definition triage_record :: "string \<Rightarrow> string \<Rightarrow> row \<Rightarrow> bool \<Rightarrow> row" where
  "triage_record symptoms_text level patient_info use_ai =
     [(''symptoms'', VStr symptoms_text),
      (''triage_level'', VStr level),
      (''patient_info'', VDict patient_info),
      (''use_ai'', VBool use_ai)]"

text \<open>\<open>now\<close> is the reading \<open>datetime.now().isoformat()\<close> of the clock.\<close>

definition triage_patient ::
  "provider \<Rightarrow> store \<Rightarrow> string \<Rightarrow> string \<Rightarrow> row option \<Rightarrow> bool \<Rightarrow> triage_out" where
  "triage_patient provider store now symptoms_text patient_info use_ai =
     (let patient_info = or_empty patient_info;
          level = choose_level provider symptoms_text use_ai
      in case inserted (store ''triage''
                 (triage_record symptoms_text level patient_info use_ai)) of
           Inr (i, t, r) \<Rightarrow>
             \<lparr>record_id = i, timestamp = t, data = VDict r, error = None,
              triage_level = level\<rparr>
         | Inl e \<Rightarrow>
             \<lparr>record_id = VNone, timestamp = VStr now, data = VNone,
              error = Some ''Failed to store in database'', triage_level = level\<rparr>)"

section \<open>Vitals evaluator\<close>

record vitals_flags =
  pulse_flag :: bool
  systolic_flag :: bool
  diastolic_flag :: bool
  any_flag :: bool

record vitals_out = stored_out +
  flags :: vitals_flags

text \<open>\<open>vitals[k]\<close> on the dictionary of readings.\<close>

definition reading :: "(string \<rightharpoonup> int) \<Rightarrow> string \<Rightarrow> error + int" where
  "reading vitals k = (case vitals k of None \<Rightarrow> Inl (KeyError k) | Some v \<Rightarrow> Inr v)"

definition compute_flags :: "int \<Rightarrow> int \<Rightarrow> int \<Rightarrow> vitals_flags" where
  "compute_flags pulse systolicBP diastolicBP =
     (let pulse_flag = (pulse < 60 \<or> pulse > 100);
          systolic_flag = (systolicBP < 90 \<or> systolicBP > 160);
          diastolic_flag = (diastolicBP < 60 \<or> diastolicBP > 100);
          any_flag = (pulse_flag \<or> systolic_flag \<or> diastolic_flag)
      in \<lparr>pulse_flag = pulse_flag, systolic_flag = systolic_flag,
          diastolic_flag = diastolic_flag, any_flag = any_flag\<rparr>)"

text \<open>The row handed to the store's \<open>insert\<close> on table \<open>vitals\<close>.\<close>

definition vitals_record :: "int \<Rightarrow> int \<Rightarrow> int \<Rightarrow> vitals_flags \<Rightarrow> row \<Rightarrow> row" where
  "vitals_record pulse systolicBP diastolicBP fl patient_info =
     [(''pulse'', VInt pulse),
      (''systolic_bp'', VInt systolicBP),
      (''diastolic_bp'', VInt diastolicBP),
      (''pulse_flag'', VBool (pulse_flag fl)),
      (''systolic_flag'', VBool (systolic_flag fl)),
      (''diastolic_flag'', VBool (diastolic_flag fl)),
      (''any_flag'', VBool (any_flag fl)),
      (''patient_info'', VDict patient_info)]"

definition flag_vitals ::
  "store \<Rightarrow> string \<Rightarrow> (string \<rightharpoonup> int) \<Rightarrow> row option \<Rightarrow> error + vitals_out" where
  "flag_vitals store now vitals patient_info =
     (let patient_info = or_empty patient_info
      in case reading vitals ''pulse'' of
           Inl e \<Rightarrow> Inl e
         | Inr pulse \<Rightarrow>
        (case reading vitals ''systolicBP'' of
           Inl e \<Rightarrow> Inl e
         | Inr systolicBP \<Rightarrow>
        (case reading vitals ''diastolicBP'' of
           Inl e \<Rightarrow> Inl e
         | Inr diastolicBP \<Rightarrow>
        (let fl = compute_flags pulse systolicBP diastolicBP
         in case inserted (store ''vitals''
                    (vitals_record pulse systolicBP diastolicBP fl patient_info)) of
              Inr (i, t, r) \<Rightarrow>
                Inr \<lparr>record_id = i, timestamp = t, data = VDict r, error = None,
                     flags = fl\<rparr>
            | Inl e \<Rightarrow>
                Inr \<lparr>record_id = VNone, timestamp = VStr now, data = VNone,
                     error = Some ''Failed to store in database'', flags = fl\<rparr>))))"

section \<open>API layer\<close>

subsection \<open>Validation of a triage request\<close>

definition pii_indicators :: "string list" where
  "pii_indicators = [''ssn'', ''social security'', ''credit card'', ''phone number'']"

text \<open>The validator \<open>validate_symptoms\<close> of \<open>TriageRequest\<close>.\<close>

definition validate_symptoms :: "string \<Rightarrow> error + string" where
  "validate_symptoms v =
     (if strip v = [] then Inl (ValidationError (ValueError ''Symptoms cannot be empty''))
      else if list_ex (\<lambda>indicator. contains indicator (lower v)) pii_indicators
      then Inl (ValidationError
             (ValueError ''Symptoms appear to contain sensitive information''))
      else Inr (strip v))"

text \<open>
  The field \<open>symptoms\<close>: the constraints \<open>min_length=5\<close> and \<open>max_length=2000\<close> of
  \<open>Field\<close> are checked on the string as received, and the validator runs on a string
  that passed them (it is declared without \<open>pre=True\<close>).
\<close>

definition symptoms_field :: "string \<Rightarrow> error + string" where
  "symptoms_field v =
     (if length v < 5 then Inl (ValidationError MinLength)
      else if length v > 2000 then Inl (ValidationError MaxLength)
      else validate_symptoms v)"

text \<open>
  A validated \<open>TriageRequest\<close>. The constructor takes the fields of the body, the
  symptoms being a string; a missing \<open>patient_info\<close> is the empty dictionary and an
  explicit \<open>null\<close> is \<open>None\<close>.
\<close>

record triage_request =
  request_symptoms :: string
  request_patient_info :: "row option"
  request_use_ai :: bool

definition TriageRequest :: "string \<Rightarrow> row option \<Rightarrow> bool \<Rightarrow> error + triage_request" where
  "TriageRequest symptoms patient_info use_ai =
     (case symptoms_field symptoms of
        Inl e \<Rightarrow> Inl e
      | Inr v \<Rightarrow>
          Inr \<lparr>request_symptoms = v, request_patient_info = patient_info,
               request_use_ai = use_ai\<rparr>)"

subsection \<open>The triage endpoint\<close>

text \<open>
  \<open>TriageResponse\<close>: \<open>triage_level\<close> and \<open>timestamp\<close> are of type \<open>str\<close>, \<open>record_id\<close>,
  \<open>confidence\<close> and \<open>error\<close> of type \<open>Optional[str]\<close>. A string passes a \<open>str\<close> field
  and \<open>None\<close> does not; what pydantic makes of a value that is neither depends on its
  version (version 1 converts a number to its decimal text, version 2 rejects it) and is
  the parameter \<open>coerce\<close>.
\<close>

record triage_response =
  response_triage_level :: string
  response_record_id :: "string option"
  response_timestamp :: string
  response_confidence :: "string option"
  response_error :: "string option"

type_synonym coerce = "val \<Rightarrow> string option"

definition str_field :: "coerce \<Rightarrow> val \<Rightarrow> error + string" where
  "str_field coerce v =
     (case v of
        VStr s \<Rightarrow> Inr s
      | VNone \<Rightarrow> Inl (ValidationError StrType)
      | _ \<Rightarrow>
          (case coerce v of
             None \<Rightarrow> Inl (ValidationError StrType)
           | Some s \<Rightarrow> Inr s))"

definition optional_str_field :: "coerce \<Rightarrow> val \<Rightarrow> error + string option" where
  "optional_str_field coerce v =
     (case v of
        VNone \<Rightarrow> Inr None
      | _ \<Rightarrow> (case str_field coerce v of Inl e \<Rightarrow> Inl e | Inr s \<Rightarrow> Inr (Some s)))"

definition TriageResponse ::
  "coerce \<Rightarrow> string \<Rightarrow> val \<Rightarrow> val \<Rightarrow> string option \<Rightarrow> error + triage_response" where
  "TriageResponse coerce level rid ts err =
     (case optional_str_field coerce rid of
        Inl e \<Rightarrow> Inl e
      | Inr rid' \<Rightarrow>
          (case str_field coerce ts of
             Inl e \<Rightarrow> Inl e
           | Inr ts' \<Rightarrow>
               Inr \<lparr>response_triage_level = level, response_record_id = rid',
                    response_timestamp = ts', response_confidence = None,
                    response_error = err\<rparr>))"

text \<open>
  The handler \<open>create_triage\<close>: the orchestrator is called with the fields of the
  validated request, the response is built from \<open>result['triage_level']\<close>,
  \<open>result.get('record_id')\<close>, \<open>result['timestamp']\<close> and \<open>result.get('error')\<close>, and
  every exception inside the \<open>try\<close> is answered with status 500.
\<close>

definition create_triage ::
  "coerce \<Rightarrow> provider \<Rightarrow> store \<Rightarrow> string \<Rightarrow> triage_request \<Rightarrow> error + triage_response" where
  "create_triage coerce provider store now request =
     (let result = triage_patient provider store now (request_symptoms request)
                     (request_patient_info request) (request_use_ai request)
      in case TriageResponse coerce (triage_level result) (record_id result)
                (timestamp result) (error result) of
           Inl e \<Rightarrow> Inl (HTTPException 500)
         | Inr response \<Rightarrow> Inr response)"

text \<open>
  \<open>POST /api/triage\<close>: a body that fails validation is answered with the validation
  error (status 422) and the handler does not run; otherwise the handler runs on the
  validated request.
\<close>

definition post_triage ::
  "coerce \<Rightarrow> provider \<Rightarrow> store \<Rightarrow> string \<Rightarrow> string \<Rightarrow> row option \<Rightarrow> bool
     \<Rightarrow> error + triage_response" where
  "post_triage coerce provider store now symptoms patient_info use_ai =
     (case TriageRequest symptoms patient_info use_ai of
        Inl e \<Rightarrow> Inl e
      | Inr request \<Rightarrow> create_triage coerce provider store now request)"

subsection \<open>Statistics\<close>

text \<open>
  \<open>select\<close> is the store's query for the most recent rows of a table; a failure of it
  gives the empty list, as in \<open>get_recent_triage_records\<close> and
  \<open>get_recent_vitals_records\<close>.
\<close>

type_synonym select = "string \<Rightarrow> nat \<Rightarrow> error + row list"

definition get_recent_triage_records :: "select \<Rightarrow> nat \<Rightarrow> row list" where
  "get_recent_triage_records select limit_count =
     (case select ''triage'' limit_count of Inl e \<Rightarrow> [] | Inr rows \<Rightarrow> rows)"

definition get_recent_vitals_records :: "select \<Rightarrow> nat \<Rightarrow> row list" where
  "get_recent_vitals_records select limit_count =
     (case select ''vitals'' limit_count of Inl e \<Rightarrow> [] | Inr rows \<Rightarrow> rows)"

text \<open>
  A Python \<open>float\<close> is an IEEE 754 double; a finite double is modelled by the rational
  number it denotes. \<open>nearest_double\<close> rounds a rational to the nearest double, a tie
  going to the even significand: 53 bits of significand counted from the leading bit
  \<open>2 ^ e\<close> of the number, and the spacing of the subnormal numbers below \<open>2 ^ - 1022\<close>.
  Numbers beyond the largest double are outside the model.
\<close>

text \<open>\<open>int.bit_length\<close> on a positive integer.\<close>

function bit_length :: "int \<Rightarrow> int" where
  "bit_length a = (if a \<le> 0 then 0 else 1 + bit_length (a div 2))"
  by pat_completeness auto
termination
  by (relation "measure nat") auto

declare bit_length.simps [simp del]

definition pow2 :: "int \<Rightarrow> rat" where
  "pow2 e = (if 0 \<le> e then 2 ^ nat e else 1 / 2 ^ nat (- e))"

text \<open>The exponent \<open>e\<close> with \<open>2 ^ e \<le> x < 2 ^ (e + 1)\<close>, for a positive \<open>x\<close>.\<close>

definition float_exponent :: "rat \<Rightarrow> int" where
  "float_exponent x =
     (let (a, b) = quotient_of x;
          e = bit_length a - bit_length b
      in if pow2 e \<le> x then e else e - 1)"

text \<open>Rounding to the nearest integer, a tie going to the even one.\<close>

definition half_even :: "rat \<Rightarrow> int" where
  "half_even x =
     (let f = \<lfloor>x\<rfloor>; d = x - of_int f
      in if d < 1 / 2 then f else if 1 / 2 < d then f + 1
         else if even f then f else f + 1)"

definition nearest_double :: "rat \<Rightarrow> rat" where
  "nearest_double x =
     (if x = 0 then 0
      else (let e = max (float_exponent \<bar>x\<bar>) (- 1022); u = pow2 (e - 52)
            in of_int (half_even (x / u)) * u))"

text \<open>
  The numbers of the statistics: an \<open>int\<close> or a \<open>float\<close>. \<open>a / b\<close> on two integers
  raises on a zero divisor and is otherwise the double nearest to the quotient;
  \<open>x * n\<close> converts the integer to a double and rounds the product; \<open>round(x, ndigits)\<close>
  leaves an integer as it is and takes a float to the double nearest to the decimal
  number of \<open>ndigits\<close> places that is nearest to it, a tie going to the even last place.
\<close>

datatype num = IntNum int | FloatNum rat

definition truediv :: "int \<Rightarrow> int \<Rightarrow> error + rat" where
  "truediv a b =
     (if b = 0 then Inl ZeroDivisionError else Inr (nearest_double (of_int a / of_int b)))"

definition float_mul :: "rat \<Rightarrow> int \<Rightarrow> rat" where
  "float_mul x n = nearest_double (x * nearest_double (of_int n))"

definition float_round :: "rat \<Rightarrow> nat \<Rightarrow> rat" where
  "float_round x ndigits =
     (if ndigits > 323 then x
      else nearest_double (of_int (half_even (x * 10 ^ ndigits)) / 10 ^ ndigits))"

fun py_round :: "num \<Rightarrow> nat \<Rightarrow> num" where
  "py_round (IntNum i) ndigits = IntNum i"
| "py_round (FloatNum x) ndigits = FloatNum (float_round x ndigits)"

text \<open>
  The dictionary \<open>triage_levels\<close>, in insertion order. Two keys are the same key when
  they are equal in Python, where \<open>True\<close> equals 1 and \<open>False\<close> equals 0; the key that
  was inserted first stays. A key that is a dictionary cannot be hashed.
\<close>

fun key_of :: "val \<Rightarrow> val" where
  "key_of (VBool b) = VInt (if b then 1 else 0)"
| "key_of v = v"

fun dict_get :: "(val \<times> nat) list \<Rightarrow> val \<Rightarrow> nat \<Rightarrow> nat" where
  "dict_get [] k dflt = dflt"
| "dict_get ((k', c) # d) k dflt = (if key_of k' = key_of k then c else dict_get d k dflt)"

fun dict_set :: "(val \<times> nat) list \<Rightarrow> val \<Rightarrow> nat \<Rightarrow> (val \<times> nat) list" where
  "dict_set [] k c = [(k, c)]"
| "dict_set ((k', c') # d) k c =
     (if key_of k' = key_of k then (k', c) # d else (k', c') # dict_set d k c)"

fun count_levels :: "(val \<times> nat) list \<Rightarrow> row list \<Rightarrow> error + (val \<times> nat) list" where
  "count_levels triage_levels [] = Inr triage_levels"
| "count_levels triage_levels (record # records) =
     (let level = get_default record ''triage_level'' (VStr ''Unknown'')
      in case level of
           VDict d \<Rightarrow> Inl TypeError
         | _ \<Rightarrow>
           count_levels (dict_set triage_levels level (dict_get triage_levels level 0 + 1))
             records)"

definition flagged_count :: "row list \<Rightarrow> nat" where
  "flagged_count vitals_records =
     length (filter (\<lambda>record. truthy (get_default record ''any_flag'' (VBool False)))
       vitals_records)"

definition flag_percentage_of :: "row list \<Rightarrow> error + num" where
  "flag_percentage_of vitals_records =
     (case (if vitals_records \<noteq> [] then
              (case truediv (int (flagged_count vitals_records))
                      (int (length vitals_records)) of
                 Inl e \<Rightarrow> Inl e
               | Inr q \<Rightarrow> Inr (FloatNum (float_mul q 100)))
            else Inr (IntNum 0)) of
        Inl e \<Rightarrow> Inl e
      | Inr x \<Rightarrow> Inr (py_round x 2))"

record stats =
  total_assessments :: nat
  levels_breakdown :: "(val \<times> nat) list"
  total_checks :: nat
  flagged_cases :: nat
  flag_percentage :: num
  stats_timestamp :: string

text \<open>The \<open>try\<close> block of \<open>get_triage_stats\<close>, with the exception it may raise.\<close>

definition compute_stats :: "select \<Rightarrow> string \<Rightarrow> error + stats" where
  "compute_stats select now =
     (let triage_records = get_recent_triage_records select 100;
          vitals_records = get_recent_vitals_records select 100
      in case count_levels [] triage_records of
           Inl e \<Rightarrow> Inl e
         | Inr triage_levels \<Rightarrow>
             (case flag_percentage_of vitals_records of
                Inl e \<Rightarrow> Inl e
              | Inr pct \<Rightarrow>
                  Inr \<lparr>total_assessments = length triage_records,
                       levels_breakdown = triage_levels,
                       total_checks = length vitals_records,
                       flagged_cases = flagged_count vitals_records,
                       flag_percentage = pct,
                       stats_timestamp = now\<rparr>))"

text \<open>\<open>GET /api/stats\<close>: an exception inside the \<open>try\<close> is answered with status 500.\<close>

definition get_triage_stats :: "select \<Rightarrow> string \<Rightarrow> error + stats" where
  "get_triage_stats select now =
     (case compute_stats select now of
        Inl e \<Rightarrow> Inl (HTTPException 500)
      | Inr st \<Rightarrow> Inr st)"

section \<open>Facts about the text primitives\<close>

lemma starts_with_prefix: "starts_with kw t = prefix kw t"
  by (induction kw t rule: starts_with.induct) auto

lemma contains_sublist: "contains kw t = sublist kw t"
  by (induction t) (auto simp: starts_with_prefix sublist_Cons_right)

lemma contains_iff: "contains kw t \<longleftrightarrow> (\<exists>p q. t = p @ kw @ q)"
  by (simp add: contains_sublist sublist_def)

lemma lower_append: "lower (p @ q) = lower p @ lower q"
  by (simp add: lower_def)

lemma lower_critical:
  "lower ''seizure'' = ''seizure''"
  "lower ''loss of consciousness'' = ''loss of consciousness''"
  "lower ''coma'' = ''coma''"
  by code_simp+

lemma mention_lower:
  assumes "lower kw = kw" and "\<exists>p q. s = p @ kw @ q"
  shows "\<exists>p q. lower s = p @ kw @ q"
proof -
  from assms(2) obtain p q where "s = p @ kw @ q" by blast
  then have "lower s = lower p @ kw @ lower q"
    by (simp add: lower_append assms(1))
  then show ?thesis by blast
qed

lemma rule_based_triage_unfold:
  "rule_based_triage s =
     (if \<exists>kw \<in> set [''seizure'', ''loss of consciousness'', ''coma''].
           \<exists>p q. lower s = p @ kw @ q
      then ''Critical''
      else if \<exists>kw \<in> set [''vomiting'', ''blurred vision'', ''slurred speech''].
           \<exists>p q. lower s = p @ kw @ q
      then ''Urgent''
      else if \<exists>kw \<in> set [''headache'', ''neck pain'']. \<exists>p q. lower s = p @ kw @ q
      then ''Moderate''
      else if \<exists>kw \<in> set [''dizziness'', ''mild pain'', ''tiredness''].
           \<exists>p q. lower s = p @ kw @ q
      then ''Low''
      else ''Moderate'')"
  unfolding rule_based_triage_def levels_def scan_levels.simps list_ex_iff contains_iff
  by (rule refl)

lemma rule_based_triage_range:
  "rule_based_triage s \<in> {''Critical'', ''Urgent'', ''Moderate'', ''Low''}"
  by (simp add: rule_based_triage_def levels_def)

lemma critical_wins:
  assumes "kc \<in> set [''seizure'', ''loss of consciousness'', ''coma'']"
    and "\<exists>p q. lower s = p @ kc @ q"
  shows "rule_based_triage s = ''Critical''"
proof -
  from assms have "\<exists>kw \<in> set [''seizure'', ''loss of consciousness'', ''coma''].
      \<exists>p q. lower s = p @ kw @ q"
    by blast
  then show ?thesis
    by (simp only: rule_based_triage_unfold if_True)
qed

lemma same_letter_lower:
  assumes "same_letter a b" and "lower_char b = b"
  shows "lower_char a = b"
proof (cases "a = b")
  case True
  with assms(2) show ?thesis by simp
next
  case False
  with assms(1) have r: "65 \<le> (of_char a :: nat)" "(of_char a :: nat) \<le> 90"
    and b: "(of_char b :: nat) = of_char a + 32"
    by (simp_all add: same_letter_def)
  from r have "lower_char a = char_of ((of_char a :: nat) + 32)"
    by (simp add: lower_char_def)
  also have "\<dots> = char_of (of_char b :: nat)" by (simp only: b)
  finally show ?thesis by simp
qed

lemma same_letters_lower:
  "list_all2 same_letter xs ys \<Longrightarrow> lower ys = ys \<Longrightarrow> lower xs = ys"
proof (induction rule: list_all2_induct)
  case Nil
  then show ?case by (simp add: lower_def)
next
  case (Cons x xs y ys)
  from Cons.prems have h: "lower_char y = y" and t: "lower ys = ys"
    by (simp_all add: lower_def)
  from Cons.hyps(1) h have "lower_char x = y" by (rule same_letter_lower)
  moreover from Cons.IH t have "lower xs = ys" by simp
  ultimately show ?case by (simp add: lower_def)
qed

lemma lower_char_code:
  "(of_char (lower_char c) :: nat) =
     (let n = of_char c
      in if (65 \<le> n \<and> n \<le> 90) \<or> (192 \<le> n \<and> n \<le> 222 \<and> n \<noteq> 215) then n + 32 else n)"
  by (auto simp: lower_char_def Let_def)

lemma mention_variant:
  assumes "list_all2 same_letter k' k" and "lower k = k" and "\<exists>p q. s = p @ k' @ q"
  shows "\<exists>p q. lower s = p @ k @ q"
proof -
  from assms(3) obtain p q where "s = p @ k' @ q" by blast
  moreover from assms(1,2) have "lower k' = k" by (rule same_letters_lower)
  ultimately have "lower s = lower p @ k @ lower q"
    by (simp add: lower_append)
  then show ?thesis by blast
qed

section \<open>The rule-based classifier\<close>

text \<open>
  Claim C2. \<open>rule_based_triage\<close> lower-cases the text and tests the four keyword groups
  in the order Critical, Urgent, Moderate, Low; the label is that of the first group one
  of whose keywords occurs somewhere in the lowered text (\<open>p\<close> and \<open>q\<close> are what stands
  before and after the keyword), and Moderate when no keyword occurs. Hence a text that
  contains a Critical keyword and a Low keyword is labelled Critical, as
  "seizure and tiredness" is. The lowered text has the length of the text, and its
  character at each place is that of the text, moved up by 32 code points when it is a
  capital letter (A to Z, U+00C0 to U+00DE without U+00D7). So the keywords are found in
  whatever letter case they are written: a text that contains a Critical keyword and a
  Low keyword, each with any of its letters in upper case, is labelled Critical, and
  "SEIZURE and Tiredness", "Blurred VISION", "Neck Pain, then Dizziness", "MILD PAIN"
  and "High FEVER" are labelled by the group of their keyword, or Moderate for none.
\<close>

theorem rule_based_triage_priority:
  "rule_based_triage s =
     (if \<exists>kw \<in> set [''seizure'', ''loss of consciousness'', ''coma''].
           \<exists>p q. lower s = p @ kw @ q
      then ''Critical''
      else if \<exists>kw \<in> set [''vomiting'', ''blurred vision'', ''slurred speech''].
           \<exists>p q. lower s = p @ kw @ q
      then ''Urgent''
      else if \<exists>kw \<in> set [''headache'', ''neck pain'']. \<exists>p q. lower s = p @ kw @ q
      then ''Moderate''
      else if \<exists>kw \<in> set [''dizziness'', ''mild pain'', ''tiredness''].
           \<exists>p q. lower s = p @ kw @ q
      then ''Low''
      else ''Moderate'')
   \<and> (kc \<in> set [''seizure'', ''loss of consciousness'', ''coma''] \<and>
      kl \<in> set [''dizziness'', ''mild pain'', ''tiredness''] \<and>
      (\<exists>p q. t = p @ kc @ q) \<and> (\<exists>p q. t = p @ kl @ q)
      \<longrightarrow> rule_based_triage t = ''Critical'')
   \<and> rule_based_triage ''seizure and tiredness'' = ''Critical''
   \<and> length (lower s) = length s
   \<and> (\<forall>i < length s.
        (of_char (lower s ! i) :: nat) =
          (let n = of_char (s ! i)
           in if (65 \<le> n \<and> n \<le> 90) \<or> (192 \<le> n \<and> n \<le> 222 \<and> n \<noteq> 215) then n + 32
              else n))
   \<and> (kc \<in> set [''seizure'', ''loss of consciousness'', ''coma''] \<and>
      kl \<in> set [''dizziness'', ''mild pain'', ''tiredness''] \<and>
      list_all2 same_letter kc' kc \<and> list_all2 same_letter kl' kl \<and>
      (\<exists>p q. u = p @ kc' @ q) \<and> (\<exists>p q. u = p @ kl' @ q)
      \<longrightarrow> rule_based_triage u = ''Critical'')
   \<and> rule_based_triage ''SEIZURE and Tiredness'' = ''Critical''
   \<and> rule_based_triage ''Blurred VISION'' = ''Urgent''
   \<and> rule_based_triage ''Neck Pain, then Dizziness'' = ''Moderate''
   \<and> rule_based_triage ''MILD PAIN'' = ''Low''
   \<and> rule_based_triage ''High FEVER'' = ''Moderate''"
proof (intro conjI impI allI)
  show "rule_based_triage ''seizure and tiredness'' = ''Critical''"
    by code_simp
next
  assume h: "kc \<in> set [''seizure'', ''loss of consciousness'', ''coma''] \<and>
      kl \<in> set [''dizziness'', ''mild pain'', ''tiredness''] \<and>
      (\<exists>p q. t = p @ kc @ q) \<and> (\<exists>p q. t = p @ kl @ q)"
  then have "lower kc = kc"
    using lower_critical by auto
  with h have "\<exists>p q. lower t = p @ kc @ q"
    by (intro mention_lower) simp_all
  with h show "rule_based_triage t = ''Critical''"
    by (intro critical_wins[of kc]) simp_all
next
  show "length (lower s) = length s"
    by (simp add: lower_def)
next
  fix i
  assume "i < length s"
  then show "(of_char (lower s ! i) :: nat) =
      (let n = of_char (s ! i)
       in if (65 \<le> n \<and> n \<le> 90) \<or> (192 \<le> n \<and> n \<le> 222 \<and> n \<noteq> 215) then n + 32
          else n)"
    by (simp only: lower_def nth_map lower_char_code)
next
  assume h: "kc \<in> set [''seizure'', ''loss of consciousness'', ''coma''] \<and>
      kl \<in> set [''dizziness'', ''mild pain'', ''tiredness''] \<and>
      list_all2 same_letter kc' kc \<and> list_all2 same_letter kl' kl \<and>
      (\<exists>p q. u = p @ kc' @ q) \<and> (\<exists>p q. u = p @ kl' @ q)"
  then have "lower kc = kc"
    using lower_critical by auto
  with h have "\<exists>p q. lower u = p @ kc @ q"
    by (intro mention_variant[of kc']) simp_all
  with h show "rule_based_triage u = ''Critical''"
    by (intro critical_wins[of kc]) simp_all
next
  show "rule_based_triage ''SEIZURE and Tiredness'' = ''Critical''" by code_simp
  show "rule_based_triage ''Blurred VISION'' = ''Urgent''" by code_simp
  show "rule_based_triage ''Neck Pain, then Dizziness'' = ''Moderate''" by code_simp
  show "rule_based_triage ''MILD PAIN'' = ''Low''" by code_simp
  show "rule_based_triage ''High FEVER'' = ''Moderate''" by code_simp
qed (rule rule_based_triage_unfold)

text \<open>
  The priority rule at a text with a Critical and a Low keyword, in small letters and
  with capitals, and the lower-casing of "Coma".
\<close>

theorem rule_based_triage_priority_witness:
  "(\<exists>p q. ''coma, then dizziness'' = p @ ''coma'' @ q) \<and>
   (\<exists>p q. ''coma, then dizziness'' = p @ ''dizziness'' @ q) \<and>
   rule_based_triage ''coma, then dizziness'' = ''Critical'' \<and>
   list_all2 same_letter ''COMA'' ''coma'' \<and>
   list_all2 same_letter ''Dizziness'' ''dizziness'' \<and>
   (\<exists>p q. ''COMA, then Dizziness'' = p @ ''COMA'' @ q) \<and>
   (\<exists>p q. ''COMA, then Dizziness'' = p @ ''Dizziness'' @ q) \<and>
   rule_based_triage ''COMA, then Dizziness'' = ''Critical'' \<and>
   (of_char (lower ''Coma'' ! 0) :: nat) = 99"
proof -
  have c: "\<exists>p q. ''coma, then dizziness'' = p @ ''coma'' @ q"
    by (rule exI[of _ "''''"], rule exI[of _ "'', then dizziness''"]) simp
  have l: "\<exists>p q. ''coma, then dizziness'' = p @ ''dizziness'' @ q"
    by (rule exI[of _ "''coma, then ''"], rule exI[of _ "''''"]) simp
  have r: "rule_based_triage ''coma, then dizziness'' = ''Critical''"
  proof (rule mp[OF rule_based_triage_priority
        [where s = "[]" and kc = "''coma''" and kl = "''dizziness''"
           and t = "''coma, then dizziness''", THEN conjunct2, THEN conjunct1]])
    show "''coma'' \<in> set [''seizure'', ''loss of consciousness'', ''coma''] \<and>
      ''dizziness'' \<in> set [''dizziness'', ''mild pain'', ''tiredness''] \<and>
      (\<exists>p q. ''coma, then dizziness'' = p @ ''coma'' @ q) \<and>
      (\<exists>p q. ''coma, then dizziness'' = p @ ''dizziness'' @ q)"
    proof (intro conjI)
      show "\<exists>p q. ''coma, then dizziness'' = p @ ''coma'' @ q" by (rule c)
      show "\<exists>p q. ''coma, then dizziness'' = p @ ''dizziness'' @ q" by (rule l)
    qed simp_all
  qed
  have vc: "list_all2 same_letter ''COMA'' ''coma''" by code_simp
  have vl: "list_all2 same_letter ''Dizziness'' ''dizziness''" by code_simp
  have cc: "\<exists>p q. ''COMA, then Dizziness'' = p @ ''COMA'' @ q"
    by (rule exI[of _ "''''"], rule exI[of _ "'', then Dizziness''"]) simp
  have ll: "\<exists>p q. ''COMA, then Dizziness'' = p @ ''Dizziness'' @ q"
    by (rule exI[of _ "''COMA, then ''"], rule exI[of _ "''''"]) simp
  have rr: "rule_based_triage ''COMA, then Dizziness'' = ''Critical''"
  proof (rule mp[OF rule_based_triage_priority
        [where s = "[]" and kc = "''coma''" and kl = "''dizziness''"
           and kc' = "''COMA''" and kl' = "''Dizziness''"
           and u = "''COMA, then Dizziness''",
         THEN conjunct2, THEN conjunct2, THEN conjunct2, THEN conjunct2, THEN conjunct2,
         THEN conjunct1]])
    show "''coma'' \<in> set [''seizure'', ''loss of consciousness'', ''coma''] \<and>
      ''dizziness'' \<in> set [''dizziness'', ''mild pain'', ''tiredness''] \<and>
      list_all2 same_letter ''COMA'' ''coma'' \<and>
      list_all2 same_letter ''Dizziness'' ''dizziness'' \<and>
      (\<exists>p q. ''COMA, then Dizziness'' = p @ ''COMA'' @ q) \<and>
      (\<exists>p q. ''COMA, then Dizziness'' = p @ ''Dizziness'' @ q)"
    proof (intro conjI)
      show "list_all2 same_letter ''COMA'' ''coma''" by (rule vc)
      show "list_all2 same_letter ''Dizziness'' ''dizziness''" by (rule vl)
      show "\<exists>p q. ''COMA, then Dizziness'' = p @ ''COMA'' @ q" by (rule cc)
      show "\<exists>p q. ''COMA, then Dizziness'' = p @ ''Dizziness'' @ q" by (rule ll)
    qed simp_all
  qed
  have "\<forall>i < length ''Coma''.
        (of_char (lower ''Coma'' ! i) :: nat) =
          (let n = of_char (''Coma'' ! i)
           in if (65 \<le> n \<and> n \<le> 90) \<or> (192 \<le> n \<and> n \<le> 222 \<and> n \<noteq> 215) then n + 32
              else n)"
    by (rule rule_based_triage_priority
        [where s = "''Coma''", THEN conjunct2, THEN conjunct2, THEN conjunct2, THEN conjunct2,
         THEN conjunct1])
  then have lw: "(of_char (lower ''Coma'' ! 0) :: nat) = 99"
    by simp
  from c l r vc vl cc ll rr lw show ?thesis by (intro conjI)
qed

text \<open>
  Claim C9. \<open>rule_based_triage\<close> is total: on every string, the empty one included, it
  returns one of the four labels, and on the empty string it returns Moderate.
\<close>

theorem rule_based_triage_total:
  "rule_based_triage s \<in> {''Critical'', ''Urgent'', ''Moderate'', ''Low''}
   \<and> rule_based_triage [] = ''Moderate''"
proof
  show "rule_based_triage s \<in> {''Critical'', ''Urgent'', ''Moderate'', ''Low''}"
    by (rule rule_based_triage_range)
  show "rule_based_triage [] = ''Moderate''"
    by code_simp
qed

section \<open>Facts about the persistence adapter\<close>

lemma inserted_raise: "inserted (Inl e) = Inl e"
  by (simp add: inserted_def)

lemma inserted_row:
  "map_of r ''id'' = Some i \<Longrightarrow> map_of r ''created_at'' = Some t \<Longrightarrow>
   inserted (Inr (r # rs)) = Inr (i, t, r)"
  by (simp add: inserted_def first_item_def getitem_def)

lemma inserted_empty: "inserted (Inr []) = Inl IndexError"
  by (simp add: inserted_def first_item_def)

section \<open>Facts about the vitals evaluator\<close>

lemma flag_vitals_flags:
  assumes "vitals ''pulse'' = Some p" and "vitals ''systolicBP'' = Some s"
    and "vitals ''diastolicBP'' = Some d"
  shows "\<exists>out. flag_vitals store now vitals pinfo = Inr out \<and> flags out = compute_flags p s d"
  using assms
  by (simp add: flag_vitals_def reading_def Let_def split: sum.splits prod.splits)

lemma flag_vitals_Inr:
  assumes "flag_vitals store now vitals pinfo = Inr out"
  shows "\<exists>p s d. flags out = compute_flags p s d"
  using assms
  by (fastforce simp: flag_vitals_def reading_def Let_def split: sum.splits prod.splits option.splits)

lemma compute_flags_any:
  "any_flag (compute_flags p s d) =
     (pulse_flag (compute_flags p s d) \<or> systolic_flag (compute_flags p s d) \<or>
      diastolic_flag (compute_flags p s d))"
  by (simp add: compute_flags_def Let_def)

section \<open>The vitals evaluator\<close>

text \<open>
  Claim C3. On readings that carry the three keys, \<open>flag_vitals\<close> returns flags with
  \<open>pulse_flag\<close> true exactly when the pulse is below 60 or above 100, \<open>systolic_flag\<close>
  exactly when the systolic pressure is below 90 or above 160, and \<open>diastolic_flag\<close>
  exactly when the diastolic pressure is below 60 or above 100, for all integers and so
  for those in the valid ranges, whatever the store answers. At the boundaries: pulse 60
  is not flagged and 59 is, systolic 160 is not flagged and 161 is.
\<close>

theorem flag_vitals_thresholds:
  "(vitals ''pulse'' = Some p \<and> vitals ''systolicBP'' = Some s \<and>
    vitals ''diastolicBP'' = Some d \<longrightarrow>
      (\<exists>out. flag_vitals store now vitals pinfo = Inr out \<and>
         pulse_flag (flags out) = (p < 60 \<or> p > 100) \<and>
         systolic_flag (flags out) = (s < 90 \<or> s > 160) \<and>
         diastolic_flag (flags out) = (d < 60 \<or> d > 100)))
   \<and> pulse_flag (compute_flags 60 s' d') = False
   \<and> pulse_flag (compute_flags 59 s' d') = True
   \<and> systolic_flag (compute_flags p' 160 d') = False
   \<and> systolic_flag (compute_flags p' 161 d') = True"
proof (intro conjI impI)
  assume h: "vitals ''pulse'' = Some p \<and> vitals ''systolicBP'' = Some s \<and>
    vitals ''diastolicBP'' = Some d"
  then obtain out where "flag_vitals store now vitals pinfo = Inr out"
    and "flags out = compute_flags p s d"
    using flag_vitals_flags[of vitals p s d store now pinfo] by blast
  then show "\<exists>out. flag_vitals store now vitals pinfo = Inr out \<and>
         pulse_flag (flags out) = (p < 60 \<or> p > 100) \<and>
         systolic_flag (flags out) = (s < 90 \<or> s > 160) \<and>
         diastolic_flag (flags out) = (d < 60 \<or> d > 100)"
    by (simp add: compute_flags_def Let_def)
qed (simp_all add: compute_flags_def Let_def)

text \<open>The thresholds at pulse 59, systolic 161 and diastolic 95, with the store down.\<close>

theorem flag_vitals_thresholds_witness:
  "\<exists>out. flag_vitals (\<lambda>table r. Inl (Exception ''store down'')) ''2025-01-01T00:00:00''
        [''pulse'' \<mapsto> 59, ''systolicBP'' \<mapsto> 161, ''diastolicBP'' \<mapsto> 95] None = Inr out \<and>
      pulse_flag (flags out) \<and> systolic_flag (flags out) \<and> \<not> diastolic_flag (flags out)"
  using flag_vitals_thresholds
    [where vitals = "[''pulse'' \<mapsto> 59, ''systolicBP'' \<mapsto> 161, ''diastolicBP'' \<mapsto> 95]"
       and p = 59 and s = 161 and d = 95 and pinfo = None
       and store = "\<lambda>table r. Inl (Exception ''store down'')"
       and now = "''2025-01-01T00:00:00''" and s' = 0 and d' = 0 and p' = 0]
  by simp

text \<open>
  Claim C4. In every result of \<open>flag_vitals\<close>, \<open>any_flag\<close> is the disjunction of the
  three other flags; \<open>compute_flags\<close> is the only place where the flags are built, and
  the same holds of every value it builds.
\<close>

theorem any_flag_is_or:
  "(flag_vitals store now vitals pinfo = Inr out \<longrightarrow>
      any_flag (flags out) =
        (pulse_flag (flags out) \<or> systolic_flag (flags out) \<or> diastolic_flag (flags out)))
   \<and> any_flag (compute_flags p s d) =
        (pulse_flag (compute_flags p s d) \<or> systolic_flag (compute_flags p s d) \<or>
         diastolic_flag (compute_flags p s d))"
proof (intro conjI impI)
  assume "flag_vitals store now vitals pinfo = Inr out"
  then obtain p' s' d' where "flags out = compute_flags p' s' d'"
    using flag_vitals_Inr by blast
  then show "any_flag (flags out) =
        (pulse_flag (flags out) \<or> systolic_flag (flags out) \<or> diastolic_flag (flags out))"
    by (simp add: compute_flags_any)
qed (rule compute_flags_any)

text \<open>The invariant at the readings 120, 180 and 95, with a store that answers.\<close>

theorem any_flag_is_or_witness:
  "flag_vitals (\<lambda>table r. Inr [(''id'', VInt 7) # (''created_at'', VStr ''t0'') # r]) ''t1''
      [''pulse'' \<mapsto> 120, ''systolicBP'' \<mapsto> 180, ''diastolicBP'' \<mapsto> 95] None
    = Inr \<lparr>record_id = VInt 7, timestamp = VStr ''t0'',
          data = VDict ((''id'', VInt 7) # (''created_at'', VStr ''t0'') #
                   vitals_record 120 180 95
                     \<lparr>pulse_flag = True, systolic_flag = True, diastolic_flag = False,
                      any_flag = True\<rparr> []),
          error = None,
          flags = \<lparr>pulse_flag = True, systolic_flag = True, diastolic_flag = False,
                    any_flag = True\<rparr>\<rparr>
   \<and> any_flag \<lparr>pulse_flag = True, systolic_flag = True, diastolic_flag = False,
                any_flag = True\<rparr>
      = (True \<or> True \<or> False)"
proof -
  have ev: "flag_vitals (\<lambda>table r. Inr [(''id'', VInt 7) # (''created_at'', VStr ''t0'') # r]) ''t1''
      [''pulse'' \<mapsto> 120, ''systolicBP'' \<mapsto> 180, ''diastolicBP'' \<mapsto> 95] None
    = Inr \<lparr>record_id = VInt 7, timestamp = VStr ''t0'',
          data = VDict ((''id'', VInt 7) # (''created_at'', VStr ''t0'') #
                   vitals_record 120 180 95
                     \<lparr>pulse_flag = True, systolic_flag = True, diastolic_flag = False,
                      any_flag = True\<rparr> []),
          error = None,
          flags = \<lparr>pulse_flag = True, systolic_flag = True, diastolic_flag = False,
                    any_flag = True\<rparr>\<rparr>"
    by (simp add: flag_vitals_def reading_def compute_flags_def Let_def or_empty_def inserted_def
        first_item_def getitem_def)
  from any_flag_is_or[THEN conjunct1, THEN mp, OF ev] ev show ?thesis
    by simp
qed

section \<open>Facts about the case mappings\<close>





section \<open>Facts about the adapter\<close>







section \<open>Facts about the adapter's outcomes\<close>




lemma choose_level_rules: "choose_level provider symptoms False = rule_based_triage symptoms"
  by (simp add: choose_level_def)

lemma choose_level_fallback:
  "call_groq provider symptoms = Inl e \<Longrightarrow> choose_level provider symptoms True = rule_based_triage symptoms"
  by (simp add: choose_level_def)

lemma choose_level_ai:
  "call_groq provider symptoms = Inr level \<Longrightarrow> choose_level provider symptoms True = level"
  by (simp add: choose_level_def)

lemma triage_level_choose:
  "triage_level (triage_patient provider store now symptoms pinfo use_ai) =
     choose_level provider symptoms use_ai"
  by (simp add: triage_patient_def Let_def split: sum.splits prod.splits)

lemma triage_patient_stored:
  "inserted (store ''triage''
      (triage_record symptoms (choose_level provider symptoms use_ai) (or_empty pinfo) use_ai))
     = Inr (i, t, r) \<Longrightarrow>
   triage_patient provider store now symptoms pinfo use_ai =
     \<lparr>record_id = i, timestamp = t, data = VDict r, error = None,
      triage_level = choose_level provider symptoms use_ai\<rparr>"
  by (simp add: triage_patient_def Let_def)

lemma triage_patient_unstored:
  "inserted (store ''triage''
      (triage_record symptoms (choose_level provider symptoms use_ai) (or_empty pinfo) use_ai))
     = Inl e \<Longrightarrow>
   triage_patient provider store now symptoms pinfo use_ai =
     \<lparr>record_id = VNone, timestamp = VStr now, data = VNone,
      error = Some ''Failed to store in database'',
      triage_level = choose_level provider symptoms use_ai\<rparr>"
  by (simp add: triage_patient_def Let_def)

lemma mild_headache: "rule_based_triage ''mild headache'' = ''Moderate''"
  by code_simp

section \<open>The orchestrator\<close>

text \<open>
  Claim C1. When \<open>use_ai\<close> is true and the adapter fails, for whatever reason, the
  label of \<open>triage_patient\<close> is that of \<open>rule_based_triage\<close> on the same text, and the
  failure is not surfaced: with a store that answers, the result carries no error. When
  \<open>use_ai\<close> is false the label is that of \<open>rule_based_triage\<close> and the result does not
  depend on the provider, which is not called. With the adapter failing, the text
  "mild headache" and empty metadata give Moderate, the label of \<open>rule_based_triage\<close>.
\<close>

theorem triage_patient_fallback:
  "(call_groq provider symptoms = Inl e \<longrightarrow>
      triage_level (triage_patient provider store now symptoms pinfo True) =
        rule_based_triage symptoms)
   \<and> triage_level (triage_patient provider store now symptoms pinfo False) =
        rule_based_triage symptoms
   \<and> triage_patient provider store now symptoms pinfo False =
        triage_patient provider' store now symptoms pinfo False
   \<and> (call_groq provider symptoms = Inl e \<and>
      inserted (store ''triage''
        (triage_record symptoms (rule_based_triage symptoms) (or_empty pinfo) True)) = Inr (i, t, r)
      \<longrightarrow> triage_patient provider store now symptoms pinfo True =
            \<lparr>record_id = i, timestamp = t, data = VDict r, error = None,
             triage_level = rule_based_triage symptoms\<rparr>)
   \<and> (call_groq provider ''mild headache'' = Inl e \<longrightarrow>
      triage_level (triage_patient provider store now ''mild headache'' (Some []) True) =
        ''Moderate'')
   \<and> rule_based_triage ''mild headache'' = ''Moderate''"
proof (intro conjI impI)
  assume "call_groq provider symptoms = Inl e"
  then show "triage_level (triage_patient provider store now symptoms pinfo True) =
      rule_based_triage symptoms"
    by (simp add: triage_level_choose choose_level_fallback)
next
  show "triage_level (triage_patient provider store now symptoms pinfo False) =
      rule_based_triage symptoms"
    by (simp add: triage_level_choose choose_level_rules)
next
  show "triage_patient provider store now symptoms pinfo False =
      triage_patient provider' store now symptoms pinfo False"
    by (simp add: triage_patient_def choose_level_rules)
next
  assume h: "call_groq provider symptoms = Inl e \<and>
      inserted (store ''triage''
        (triage_record symptoms (rule_based_triage symptoms) (or_empty pinfo) True)) = Inr (i, t, r)"
  then have c: "choose_level provider symptoms True = rule_based_triage symptoms"
    by (simp add: choose_level_fallback)
  from h show "triage_patient provider store now symptoms pinfo True =
            \<lparr>record_id = i, timestamp = t, data = VDict r, error = None,
             triage_level = rule_based_triage symptoms\<rparr>"
    using triage_patient_stored[of store symptoms provider True pinfo i t r now]
    by (simp add: c)
next
  assume "call_groq provider ''mild headache'' = Inl e"
  then show "triage_level (triage_patient provider store now ''mild headache'' (Some []) True) =
      ''Moderate''"
    by (simp add: triage_level_choose choose_level_fallback mild_headache)
next
  show "rule_based_triage ''mild headache'' = ''Moderate''"
    by (rule mild_headache)
qed

text \<open>The fallback at "mild headache" with a provider that times out.\<close>

theorem triage_patient_fallback_witness:
  "call_groq (\<lambda>m. Inl ''timeout'') ''mild headache''
     = Inl (Exception ''Groq API error: timeout'')
   \<and> triage_level
       (triage_patient (\<lambda>m. Inl ''timeout'') (\<lambda>table r. Inl (Exception ''down''))
          ''2025-01-01T00:00:00'' ''mild headache'' (Some []) True) = ''Moderate''"
proof -
  have f: "call_groq (\<lambda>m. Inl ''timeout'') ''mild headache''
     = Inl (Exception ''Groq API error: timeout'')"
    by (simp add: call_groq_def groq_error_def)
  have "triage_level
       (triage_patient (\<lambda>m. Inl ''timeout'') (\<lambda>table r. Inl (Exception ''down''))
          ''2025-01-01T00:00:00'' ''mild headache'' (Some []) True) = ''Moderate''"
    by (rule mp[OF triage_patient_fallback
          [where provider = "\<lambda>m. Inl ''timeout''"
             and e = "Exception ''Groq API error: timeout''",
           THEN conjunct2, THEN conjunct2, THEN conjunct2, THEN conjunct2, THEN conjunct1]])
       (rule f)
  with f show ?thesis by (intro conjI)
qed

text \<open>
  Claim C5. When the store's insert raises, \<open>triage_patient\<close> returns the label it has
  computed, no record id, the clock's reading as timestamp and the error marker
  "Failed to store in database". When the insert answers with a row that carries an id
  and a creation time, the result carries that id, that time and the row, and no error.
  The label is the same whatever the store and the clock do.
\<close>

theorem triage_patient_persistence:
  "(store ''triage''
      (triage_record symptoms (choose_level provider symptoms use_ai) (or_empty pinfo) use_ai) = Inl e
    \<longrightarrow> triage_patient provider store now symptoms pinfo use_ai =
          \<lparr>record_id = VNone, timestamp = VStr now, data = VNone,
           error = Some ''Failed to store in database'',
           triage_level = choose_level provider symptoms use_ai\<rparr>)
   \<and> (store ''triage''
      (triage_record symptoms (choose_level provider symptoms use_ai) (or_empty pinfo) use_ai)
        = Inr (r # rs) \<and>
      map_of r ''id'' = Some i \<and> map_of r ''created_at'' = Some t
    \<longrightarrow> triage_patient provider store now symptoms pinfo use_ai =
          \<lparr>record_id = i, timestamp = t, data = VDict r, error = None,
           triage_level = choose_level provider symptoms use_ai\<rparr>)
   \<and> triage_level (triage_patient provider store now symptoms pinfo use_ai) =
       triage_level (triage_patient provider store' now' symptoms pinfo use_ai)"
proof (intro conjI impI)
  assume "store ''triage''
      (triage_record symptoms (choose_level provider symptoms use_ai) (or_empty pinfo) use_ai) = Inl e"
  then show "triage_patient provider store now symptoms pinfo use_ai =
          \<lparr>record_id = VNone, timestamp = VStr now, data = VNone,
           error = Some ''Failed to store in database'',
           triage_level = choose_level provider symptoms use_ai\<rparr>"
    by (intro triage_patient_unstored[of _ _ _ _ _ e]) (simp add: inserted_raise)
next
  assume "store ''triage''
      (triage_record symptoms (choose_level provider symptoms use_ai) (or_empty pinfo) use_ai)
        = Inr (r # rs) \<and>
      map_of r ''id'' = Some i \<and> map_of r ''created_at'' = Some t"
  then show "triage_patient provider store now symptoms pinfo use_ai =
          \<lparr>record_id = i, timestamp = t, data = VDict r, error = None,
           triage_level = choose_level provider symptoms use_ai\<rparr>"
    by (intro triage_patient_stored) (simp add: inserted_row)
next
  show "triage_level (triage_patient provider store now symptoms pinfo use_ai) =
       triage_level (triage_patient provider store' now' symptoms pinfo use_ai)"
    by (simp add: triage_level_choose)
qed

text \<open>A store that is down, and a store that assigns id 7.\<close>

theorem triage_patient_persistence_witness:
  "triage_patient (\<lambda>m. Inr ''Urgent'') (\<lambda>table r. Inl (Exception ''down''))
      ''2025-01-01T00:00:00'' ''chest pain'' None True =
     \<lparr>record_id = VNone, timestamp = VStr ''2025-01-01T00:00:00'', data = VNone,
      error = Some ''Failed to store in database'', triage_level = ''Urgent''\<rparr>
   \<and> triage_patient (\<lambda>m. Inr ''Urgent'')
      (\<lambda>table r. Inr [[(''id'', VInt 7), (''created_at'', VStr ''2024-12-31T23:59:59'')]])
      ''2025-01-01T00:00:00'' ''chest pain'' None True =
     \<lparr>record_id = VInt 7, timestamp = VStr ''2024-12-31T23:59:59'',
      data = VDict [(''id'', VInt 7), (''created_at'', VStr ''2024-12-31T23:59:59'')],
      error = None, triage_level = ''Urgent''\<rparr>"
proof -
  have lv: "choose_level (\<lambda>m. Inr ''Urgent'') ''chest pain'' True = ''Urgent''"
    by code_simp
  have a: "triage_patient (\<lambda>m. Inr ''Urgent'') (\<lambda>table r. Inl (Exception ''down''))
      ''2025-01-01T00:00:00'' ''chest pain'' None True =
     \<lparr>record_id = VNone, timestamp = VStr ''2025-01-01T00:00:00'', data = VNone,
      error = Some ''Failed to store in database'',
      triage_level = choose_level (\<lambda>m. Inr ''Urgent'') ''chest pain'' True\<rparr>"
    by (rule mp[OF triage_patient_persistence
          [where store = "\<lambda>table r. Inl (Exception ''down'')" and e = "Exception ''down''",
           THEN conjunct1]]) simp
  have b: "triage_patient (\<lambda>m. Inr ''Urgent'')
      (\<lambda>table r. Inr [[(''id'', VInt 7), (''created_at'', VStr ''2024-12-31T23:59:59'')]])
      ''2025-01-01T00:00:00'' ''chest pain'' None True =
     \<lparr>record_id = VInt 7, timestamp = VStr ''2024-12-31T23:59:59'',
      data = VDict [(''id'', VInt 7), (''created_at'', VStr ''2024-12-31T23:59:59'')],
      error = None,
      triage_level = choose_level (\<lambda>m. Inr ''Urgent'') ''chest pain'' True\<rparr>"
    by (rule mp[OF triage_patient_persistence
          [where store = "\<lambda>table r. Inr [[(''id'', VInt 7),
                 (''created_at'', VStr ''2024-12-31T23:59:59'')]]"
             and r = "[(''id'', VInt 7), (''created_at'', VStr ''2024-12-31T23:59:59'')]"
             and rs = "[]" and e = IndexError,
           THEN conjunct2, THEN conjunct1]]) simp
  from a b show ?thesis unfolding lv by (intro conjI)
qed

text \<open>
  Claim C7. The label of the pipeline is one of the four levels on the rule-based path.
  On the AI path it is not when the provider answers with text none of whose lines is a
  level. For the symptoms "Patient has severe chest pain and difficulty breathing" and
  the provider answer "I cannot classify this", the adapter returns that answer, the
  orchestrator passes it on as the label and the endpoint answers with it, where the
  rule-based classifier labels the same symptoms Moderate.
\<close>

theorem triage_level_free_text:
  "triage_level
     (triage_patient (\<lambda>m. Inr ''I cannot classify this'') (\<lambda>table r. Inl (Exception ''down''))
        ''2025-01-01T00:00:00'' ''Patient has severe chest pain and difficulty breathing''
        (Some [(''age'', VInt 45), (''gender'', VStr ''M'')]) True)
     = ''I cannot classify this''
   \<and> ''I cannot classify this'' \<notin> {''Critical'', ''Urgent'', ''Moderate'', ''Low''}
   \<and> post_triage (\<lambda>v. None) (\<lambda>m. Inr ''I cannot classify this'')
        (\<lambda>table r. Inl (Exception ''down'')) ''2025-01-01T00:00:00''
        ''Patient has severe chest pain and difficulty breathing''
        (Some [(''age'', VInt 45), (''gender'', VStr ''M'')]) True
     = Inr \<lparr>response_triage_level = ''I cannot classify this'', response_record_id = None,
            response_timestamp = ''2025-01-01T00:00:00'', response_confidence = None,
            response_error = Some ''Failed to store in database''\<rparr>
   \<and> rule_based_triage ''Patient has severe chest pain and difficulty breathing''
     = ''Moderate''"
proof (intro conjI)
  let ?s = "''Patient has severe chest pain and difficulty breathing''"
  have lv: "choose_level (\<lambda>m. Inr ''I cannot classify this'') ?s True
      = ''I cannot classify this''"
    by code_simp
  then show "triage_level
     (triage_patient (\<lambda>m. Inr ''I cannot classify this'') (\<lambda>table r. Inl (Exception ''down''))
        ''2025-01-01T00:00:00'' ?s (Some [(''age'', VInt 45), (''gender'', VStr ''M'')]) True)
     = ''I cannot classify this''"
    by (simp add: triage_level_choose)
  show "''I cannot classify this'' \<notin> {''Critical'', ''Urgent'', ''Moderate'', ''Low''}"
    by simp
  have v: "symptoms_field ?s = Inr ?s" by code_simp
  show "post_triage (\<lambda>v. None) (\<lambda>m. Inr ''I cannot classify this'')
        (\<lambda>table r. Inl (Exception ''down'')) ''2025-01-01T00:00:00'' ?s
        (Some [(''age'', VInt 45), (''gender'', VStr ''M'')]) True
     = Inr \<lparr>response_triage_level = ''I cannot classify this'', response_record_id = None,
            response_timestamp = ''2025-01-01T00:00:00'', response_confidence = None,
            response_error = Some ''Failed to store in database''\<rparr>"
    by (simp add: post_triage_def TriageRequest_def v create_triage_def triage_patient_def
        lv inserted_def TriageResponse_def optional_str_field_def str_field_def Let_def)
  show "rule_based_triage ?s = ''Moderate''" by code_simp
qed

section \<open>The AI classifier adapter\<close>




section \<open>Facts about request validation\<close>

lemma validate_symptoms_Inr:
  "validate_symptoms v = Inr t \<longleftrightarrow>
     strip v \<noteq> [] \<and>
     \<not> (\<exists>ind \<in> set pii_indicators. \<exists>p q. lower v = p @ ind @ q) \<and> t = strip v"
  by (auto simp: validate_symptoms_def list_ex_iff contains_iff)

lemma symptoms_field_Inr:
  "symptoms_field v = Inr t \<longleftrightarrow>
     5 \<le> length v \<and> length v \<le> 2000 \<and> strip v \<noteq> [] \<and>
     \<not> (\<exists>ind \<in> set pii_indicators. \<exists>p q. lower v = p @ ind @ q) \<and> t = strip v"
  by (auto simp: symptoms_field_def validate_symptoms_Inr)

lemma symptoms_field_Inl:
  "symptoms_field v = Inl e \<Longrightarrow> \<exists>r. e = ValidationError r"
  by (auto simp: symptoms_field_def validate_symptoms_def split: if_splits)

lemma symptoms_field_pii:
  assumes "ind \<in> set pii_indicators" and "\<exists>p q. lower v = p @ ind @ q"
  shows "\<exists>r. symptoms_field v = Inl (ValidationError r)"
proof (cases "symptoms_field v")
  case (Inl e)
  then show ?thesis using symptoms_field_Inl by blast
next
  case (Inr t)
  with assms show ?thesis unfolding symptoms_field_Inr by blast
qed

lemma post_triage_rejected:
  "symptoms_field v = Inl e \<Longrightarrow> post_triage coerce provider store now v pinfo use_ai = Inl e"
  by (simp add: post_triage_def TriageRequest_def)

lemma post_triage_accepted:
  "symptoms_field v = Inr t \<Longrightarrow>
   post_triage coerce provider store now v pinfo use_ai =
     (let result = triage_patient provider store now t pinfo use_ai
      in case TriageResponse coerce (triage_level result) (record_id result)
                (timestamp result) (error result) of
           Inl e \<Rightarrow> Inl (HTTPException 500)
         | Inr response \<Rightarrow> Inr response)"
  by (simp add: post_triage_def TriageRequest_def create_triage_def)

lemma TriageResponse_level:
  "TriageResponse coerce level rid ts err = Inr response \<Longrightarrow>
   response_triage_level response = level"
  by (auto simp: TriageResponse_def split: sum.splits)

section \<open>Validation of a triage request\<close>

text \<open>
  Claim C8 says that a request is rejected unless the symptoms have between 5 and 2000
  characters after trimming. The length is checked before the validator trims: the six
  characters of "  ab  " pass, the two characters "ab" reach the triage core, and the
  endpoint answers with a label.
\<close>

theorem symptoms_length_counterexample:
  "symptoms_field ''  ab  '' = Inr ''ab'' \<and> length (strip ''  ab  '') = 2
   \<and> post_triage (\<lambda>v. None) (\<lambda>m. Inl ''timeout'') (\<lambda>table r. Inl (Exception ''down''))
        ''2025-01-01T00:00:00'' ''  ab  '' None False
      = create_triage (\<lambda>v. None) (\<lambda>m. Inl ''timeout'') (\<lambda>table r. Inl (Exception ''down''))
          ''2025-01-01T00:00:00''
          \<lparr>request_symptoms = ''ab'', request_patient_info = None, request_use_ai = False\<rparr>
   \<and> post_triage (\<lambda>v. None) (\<lambda>m. Inl ''timeout'') (\<lambda>table r. Inl (Exception ''down''))
        ''2025-01-01T00:00:00'' ''  ab  '' None False
      = Inr \<lparr>response_triage_level = ''Moderate'', response_record_id = None,
             response_timestamp = ''2025-01-01T00:00:00'', response_confidence = None,
             response_error = Some ''Failed to store in database''\<rparr>"
proof -
  have a: "symptoms_field ''  ab  '' = Inr ''ab''" by code_simp
  have b: "length (strip ''  ab  '') = 2" by code_simp
  have r: "rule_based_triage ''ab'' = ''Moderate''" by code_simp
  have c: "post_triage (\<lambda>v. None) (\<lambda>m. Inl ''timeout'') (\<lambda>table r. Inl (Exception ''down''))
        ''2025-01-01T00:00:00'' ''  ab  '' None False
      = create_triage (\<lambda>v. None) (\<lambda>m. Inl ''timeout'') (\<lambda>table r. Inl (Exception ''down''))
          ''2025-01-01T00:00:00''
          \<lparr>request_symptoms = ''ab'', request_patient_info = None, request_use_ai = False\<rparr>"
    by (simp add: post_triage_def TriageRequest_def a)
  have d: "post_triage (\<lambda>v. None) (\<lambda>m. Inl ''timeout'') (\<lambda>table r. Inl (Exception ''down''))
        ''2025-01-01T00:00:00'' ''  ab  '' None False
      = Inr \<lparr>response_triage_level = ''Moderate'', response_record_id = None,
             response_timestamp = ''2025-01-01T00:00:00'', response_confidence = None,
             response_error = Some ''Failed to store in database''\<rparr>"
    by (simp add: post_triage_accepted[OF a] triage_patient_def choose_level_rules r
        inserted_def TriageResponse_def optional_str_field_def str_field_def Let_def)
  from a b c d show ?thesis by (intro conjI)
qed

text \<open>
  Claim C8, amended. The symptoms are accepted exactly when the text as received has
  between 5 and 2000 characters, is not blank, and its lower-cased form contains none of
  the markers "ssn", "social security", "credit card" and "phone number"; what is
  accepted is the trimmed text. A rejection is a validation error and is the answer of
  the endpoint. On acceptance the orchestrator is called with the trimmed text and
  nothing else of the text, and the endpoint answers with the response built from the
  orchestrator's result, whose label it carries, or with status 500 when the response
  model rejects that result. In particular a text with "ssn" or "credit card" in any
  letter case is rejected.
\<close>

theorem symptoms_field_accepts:
  "(symptoms_field v = Inr t \<longleftrightarrow>
      5 \<le> length v \<and> length v \<le> 2000 \<and> strip v \<noteq> [] \<and>
      \<not> (\<exists>ind \<in> set pii_indicators. \<exists>p q. lower v = p @ ind @ q) \<and> t = strip v)
   \<and> (symptoms_field v = Inl e \<longrightarrow>
      (\<exists>r. e = ValidationError r) \<and>
      post_triage coerce provider store now v pinfo use_ai = Inl e)
   \<and> (symptoms_field v = Inr t \<longrightarrow>
      post_triage coerce provider store now v pinfo use_ai =
        (let result = triage_patient provider store now (strip v) pinfo use_ai
         in case TriageResponse coerce (triage_level result) (record_id result)
                   (timestamp result) (error result) of
              Inl e \<Rightarrow> Inl (HTTPException 500)
            | Inr response \<Rightarrow> Inr response))
   \<and> (post_triage coerce provider store now v pinfo use_ai = Inr response \<longrightarrow>
      response_triage_level response =
        triage_level (triage_patient provider store now (strip v) pinfo use_ai))
   \<and> ((\<exists>p q. lower v = p @ ''ssn'' @ q) \<or> (\<exists>p q. lower v = p @ ''credit card'' @ q) \<longrightarrow>
      (\<exists>r. symptoms_field v = Inl (ValidationError r)))"
proof (intro conjI impI)
  show "symptoms_field v = Inr t \<longleftrightarrow>
      5 \<le> length v \<and> length v \<le> 2000 \<and> strip v \<noteq> [] \<and>
      \<not> (\<exists>ind \<in> set pii_indicators. \<exists>p q. lower v = p @ ind @ q) \<and> t = strip v"
    by (rule symptoms_field_Inr)
next
  assume "symptoms_field v = Inl e"
  then show "\<exists>r. e = ValidationError r" by (rule symptoms_field_Inl)
next
  assume "symptoms_field v = Inl e"
  then show "post_triage coerce provider store now v pinfo use_ai = Inl e"
    by (rule post_triage_rejected)
next
  assume a: "symptoms_field v = Inr t"
  then have "t = strip v" by (simp add: symptoms_field_Inr)
  with post_triage_accepted[OF a, of coerce provider store now pinfo use_ai]
  show "post_triage coerce provider store now v pinfo use_ai =
        (let result = triage_patient provider store now (strip v) pinfo use_ai
         in case TriageResponse coerce (triage_level result) (record_id result)
                   (timestamp result) (error result) of
              Inl e \<Rightarrow> Inl (HTTPException 500)
            | Inr response \<Rightarrow> Inr response)"
    by simp
next
  assume p: "post_triage coerce provider store now v pinfo use_ai = Inr response"
  show "response_triage_level response =
      triage_level (triage_patient provider store now (strip v) pinfo use_ai)"
  proof (cases "symptoms_field v")
    case (Inl e)
    with p show ?thesis by (simp add: post_triage_rejected)
  next
    case (Inr t)
    then have t: "t = strip v" by (simp add: symptoms_field_Inr)
    from p show ?thesis
      unfolding post_triage_accepted[OF Inr] t Let_def
      by (auto split: sum.splits dest: TriageResponse_level)
  qed
next
  assume "(\<exists>p q. lower v = p @ ''ssn'' @ q) \<or> (\<exists>p q. lower v = p @ ''credit card'' @ q)"
  then show "\<exists>r. symptoms_field v = Inl (ValidationError r)"
  proof
    assume "\<exists>p q. lower v = p @ ''ssn'' @ q"
    then show ?thesis
      by (intro symptoms_field_pii[of "''ssn''"]) (simp_all add: pii_indicators_def)
  next
    assume "\<exists>p q. lower v = p @ ''credit card'' @ q"
    then show ?thesis
      by (intro symptoms_field_pii[of "''credit card''"]) (simp_all add: pii_indicators_def)
  qed
qed

text \<open>
  A padded text that is accepted, a text that ends in a no-break space, a text that is
  too short, five no-break spaces, a text with a marker, and a store whose row has no
  creation time.
\<close>

theorem symptoms_field_accepts_witness:
  "symptoms_field ''  severe headache  '' = Inr ''severe headache''
   \<and> post_triage (\<lambda>v. None) (\<lambda>m. Inl ''timeout'') (\<lambda>table r. Inl (Exception ''down''))
        ''2025-01-01T00:00:00'' ''  severe headache  '' None False
      = Inr \<lparr>response_triage_level = ''Moderate'', response_record_id = None,
             response_timestamp = ''2025-01-01T00:00:00'', response_confidence = None,
             response_error = Some ''Failed to store in database''\<rparr>
   \<and> symptoms_field (''fever and chills'' @ [CHR 0xA0]) = Inr ''fever and chills''
   \<and> strip (''fever and chills'' @ [CHR 0xA0]) = ''fever and chills''
   \<and> post_triage (\<lambda>v. None) (\<lambda>m. Inl ''timeout'') (\<lambda>table r. Inl (Exception ''down''))
        ''2025-01-01T00:00:00'' ''Hi'' None False = Inl (ValidationError MinLength)
   \<and> post_triage (\<lambda>v. None) (\<lambda>m. Inl ''timeout'') (\<lambda>table r. Inl (Exception ''down''))
        ''2025-01-01T00:00:00'' (replicate 5 (CHR 0xA0)) None False
      = Inl (ValidationError (ValueError ''Symptoms cannot be empty''))
   \<and> (\<exists>p q. lower ''my SSN is 123-45'' = p @ ''ssn'' @ q)
   \<and> (\<exists>r. symptoms_field ''my SSN is 123-45'' = Inl (ValidationError r))
   \<and> post_triage (\<lambda>v. None) (\<lambda>m. Inl ''timeout'')
        (\<lambda>table r. Inr [[(''id'', VStr ''a1''), (''created_at'', VNone)]])
        ''2025-01-01T00:00:00'' ''  severe headache  '' None False
      = Inl (HTTPException 500)"
proof -
  let ?C = "\<lambda>v :: val. (None :: string option)"
  let ?P = "\<lambda>m :: string. (Inl ''timeout'' :: string + string)"
  let ?S = "\<lambda>(table :: string) (r :: row). (Inl (Exception ''down'') :: error + row list)"
  let ?S' = "\<lambda>(table :: string) (r :: row).
      (Inr [[(''id'', VStr ''a1''), (''created_at'', VNone)]] :: error + row list)"
  have a: "symptoms_field ''  severe headache  '' = Inr ''severe headache''" by code_simp
  have s: "strip ''  severe headache  '' = ''severe headache''" by code_simp
  have r: "rule_based_triage ''severe headache'' = ''Moderate''" by code_simp
  have b: "post_triage ?C ?P ?S ''2025-01-01T00:00:00'' ''  severe headache  '' None False
      = Inr \<lparr>response_triage_level = ''Moderate'', response_record_id = None,
             response_timestamp = ''2025-01-01T00:00:00'', response_confidence = None,
             response_error = Some ''Failed to store in database''\<rparr>"
    using symptoms_field_accepts
          [where v = "''  severe headache  ''" and t = "''severe headache''"
             and coerce = "?C" and provider = "?P" and store = "?S"
             and now = "''2025-01-01T00:00:00''" and pinfo = None and use_ai = False,
           THEN conjunct2, THEN conjunct2, THEN conjunct1, THEN mp, OF a]
    by (simp add: s triage_patient_def choose_level_rules r inserted_def TriageResponse_def
        optional_str_field_def str_field_def Let_def)
  have b': "post_triage ?C ?P ?S' ''2025-01-01T00:00:00'' ''  severe headache  '' None False
      = Inl (HTTPException 500)"
    using symptoms_field_accepts
          [where v = "''  severe headache  ''" and t = "''severe headache''"
             and coerce = "?C" and provider = "?P" and store = "?S'"
             and now = "''2025-01-01T00:00:00''" and pinfo = None and use_ai = False,
           THEN conjunct2, THEN conjunct2, THEN conjunct1, THEN mp, OF a]
    by (simp add: s triage_patient_def choose_level_rules r inserted_def first_item_def
        getitem_def TriageResponse_def optional_str_field_def str_field_def Let_def)
  have n: "symptoms_field (''fever and chills'' @ [CHR 0xA0]) = Inr ''fever and chills''"
    by code_simp
  have "''fever and chills'' = strip (''fever and chills'' @ [CHR 0xA0])"
    by (rule symptoms_field_accepts
          [where v = "''fever and chills'' @ [CHR 0xA0]" and t = "''fever and chills''",
           THEN conjunct1, THEN iffD1, OF n, THEN conjunct2, THEN conjunct2, THEN conjunct2,
           THEN conjunct2])
  then have n': "strip (''fever and chills'' @ [CHR 0xA0]) = ''fever and chills''"
    by (rule sym)
  have c: "symptoms_field ''Hi'' = Inl (ValidationError MinLength)" by code_simp
  have "(\<exists>r. ValidationError MinLength = ValidationError r) \<and>
      post_triage ?C ?P ?S ''2025-01-01T00:00:00'' ''Hi'' None False
        = Inl (ValidationError MinLength)"
    by (rule mp[OF symptoms_field_accepts
          [where v = "''Hi''" and t = "[]" and e = "ValidationError MinLength",
           THEN conjunct2, THEN conjunct1]]) (rule c)
  then have d: "post_triage ?C ?P ?S ''2025-01-01T00:00:00'' ''Hi'' None False
        = Inl (ValidationError MinLength)"
    by (rule conjunct2)
  have k: "symptoms_field (replicate 5 (CHR 0xA0))
      = Inl (ValidationError (ValueError ''Symptoms cannot be empty''))"
    by code_simp
  have "(\<exists>r. ValidationError (ValueError ''Symptoms cannot be empty'') = ValidationError r) \<and>
      post_triage ?C ?P ?S ''2025-01-01T00:00:00'' (replicate 5 (CHR 0xA0)) None False
        = Inl (ValidationError (ValueError ''Symptoms cannot be empty''))"
    by (rule mp[OF symptoms_field_accepts
          [where v = "replicate 5 (CHR 0xA0)" and t = "[]"
             and e = "ValidationError (ValueError ''Symptoms cannot be empty'')",
           THEN conjunct2, THEN conjunct1]]) (rule k)
  then have k': "post_triage ?C ?P ?S ''2025-01-01T00:00:00'' (replicate 5 (CHR 0xA0)) None False
        = Inl (ValidationError (ValueError ''Symptoms cannot be empty''))"
    by (rule conjunct2)
  have lw: "lower ''my SSN is 123-45'' = ''my '' @ ''ssn'' @ '' is 123-45''" by code_simp
  then have f: "\<exists>p q. lower ''my SSN is 123-45'' = p @ ''ssn'' @ q" by blast
  have g: "\<exists>r. symptoms_field ''my SSN is 123-45'' = Inl (ValidationError r)"
    by (rule mp[OF symptoms_field_accepts
          [where v = "''my SSN is 123-45''" and t = "[]" and e = IndexError,
           THEN conjunct2, THEN conjunct2, THEN conjunct2, THEN conjunct2]])
       (rule disjI1, rule f)
  from a b n n' d k' f g b' show ?thesis by (intro conjI)
qed

section \<open>Facts about the statistics\<close>

lemma count_levels_Inl: "count_levels acc rs = Inl e \<Longrightarrow> e = TypeError"
  by (induction rs arbitrary: acc) (auto simp: Let_def split: val.splits)

lemma flag_percentage_of_value:
  "flag_percentage_of recs =
     Inr (if recs = [] then IntNum 0
          else FloatNum (float_round (float_mul (nearest_double
                 (of_nat (length (filter
                     (\<lambda>r. truthy (case map_of r ''any_flag'' of
                                    None \<Rightarrow> VBool False | Some v \<Rightarrow> v)) recs))
                  / of_nat (length recs))) 100) 2))"
  by (simp add: flag_percentage_of_def truediv_def flagged_count_def get_default_def)

lemma compute_stats_Inl: "compute_stats select now = Inl e \<Longrightarrow> e = TypeError"
  by (auto simp: compute_stats_def Let_def flag_percentage_of_value
      dest: count_levels_Inl split: sum.splits)

lemma compute_stats_Inr:
  assumes "compute_stats select now = Inr st"
  shows "flag_percentage_of (get_recent_vitals_records select 100) = Inr (flag_percentage st)
     \<and> total_checks st = length (get_recent_vitals_records select 100)
     \<and> flagged_cases st = flagged_count (get_recent_vitals_records select 100)"
  using assms
  by (auto simp: compute_stats_def Let_def split: sum.splits)

lemma get_triage_stats_Inr:
  "get_triage_stats select now = Inr st \<Longrightarrow> compute_stats select now = Inr st"
  by (simp add: get_triage_stats_def split: sum.splits)

lemma percentage_all: "float_round (float_mul (nearest_double 1) 100) 2 = 100"
  by code_simp

lemma percentage_none: "float_round (float_mul (nearest_double 0) 100) 2 = 0"
  by code_simp

lemma percentage_two_thirds:
  "float_round (float_mul (nearest_double (2 / 3)) 100) 2
     = 4691484174324859 / 70368744177664"
  by code_simp

lemma percentage_one_of_32:
  "float_round (float_mul (nearest_double (1 / 32)) 100) 2
     = 3512807709348987 / 1125899906842624"
  by code_simp

section \<open>The statistics endpoint\<close>

text \<open>
  Claim C10. The flag percentage of \<open>GET /api/stats\<close> is the integer 0 when there are
  no vitals records. Otherwise it is the float that Python computes as
  \<open>round(flagged / total * 100, 2)\<close>, where \<open>flagged\<close> is the number of records whose
  \<open>any_flag\<close> is present and true and \<open>total\<close> the number of records: the double nearest
  to the quotient, times 100, rounded to two decimal places. It is 100 when every
  record is flagged and 0 when none is. True division raises on a zero divisor, and the
  \<open>try\<close> block of the endpoint never raises that error: the quotient is only taken of a
  non-empty list's length.
\<close>

theorem flag_percentage_safe:
  "flag_percentage_of recs =
     Inr (if recs = [] then IntNum 0
          else FloatNum (float_round (float_mul (nearest_double
                 (of_nat (length (filter
                     (\<lambda>r. truthy (case map_of r ''any_flag'' of
                                    None \<Rightarrow> VBool False | Some v \<Rightarrow> v)) recs))
                  / of_nat (length recs))) 100) 2))
   \<and> truediv a 0 = Inl ZeroDivisionError
   \<and> compute_stats select now \<noteq> Inl ZeroDivisionError
   \<and> (get_triage_stats select now = Inr st \<longrightarrow>
      flag_percentage st =
        (if get_recent_vitals_records select 100 = [] then IntNum 0
         else FloatNum (float_round (float_mul (nearest_double
                 (of_nat (length (filter
                     (\<lambda>r. truthy (case map_of r ''any_flag'' of
                                    None \<Rightarrow> VBool False | Some v \<Rightarrow> v))
                     (get_recent_vitals_records select 100)))
                  / of_nat (length (get_recent_vitals_records select 100)))) 100) 2))
      \<and> total_checks st = length (get_recent_vitals_records select 100)
      \<and> flagged_cases st =
          length (filter
            (\<lambda>r. truthy (case map_of r ''any_flag'' of None \<Rightarrow> VBool False | Some v \<Rightarrow> v))
            (get_recent_vitals_records select 100)))
   \<and> (recs \<noteq> [] \<and>
      (\<forall>r \<in> set recs. truthy (case map_of r ''any_flag'' of
                                None \<Rightarrow> VBool False | Some v \<Rightarrow> v)) \<longrightarrow>
      flag_percentage_of recs = Inr (FloatNum 100))
   \<and> (recs \<noteq> [] \<and>
      (\<forall>r \<in> set recs. \<not> truthy (case map_of r ''any_flag'' of
                                  None \<Rightarrow> VBool False | Some v \<Rightarrow> v)) \<longrightarrow>
      flag_percentage_of recs = Inr (FloatNum 0))"
proof (intro conjI impI)
  show "flag_percentage_of recs =
     Inr (if recs = [] then IntNum 0
          else FloatNum (float_round (float_mul (nearest_double
                 (of_nat (length (filter
                     (\<lambda>r. truthy (case map_of r ''any_flag'' of
                                    None \<Rightarrow> VBool False | Some v \<Rightarrow> v)) recs))
                  / of_nat (length recs))) 100) 2))"
    by (rule flag_percentage_of_value)
next
  show "truediv a 0 = Inl ZeroDivisionError"
    by (simp add: truediv_def)
next
  show "compute_stats select now \<noteq> Inl ZeroDivisionError"
    using compute_stats_Inl[of select now ZeroDivisionError] by auto
next
  assume "get_triage_stats select now = Inr st"
  then have a: "compute_stats select now = Inr st" by (rule get_triage_stats_Inr)
  from compute_stats_Inr[OF a]
  show "flag_percentage st =
        (if get_recent_vitals_records select 100 = [] then IntNum 0
         else FloatNum (float_round (float_mul (nearest_double
                 (of_nat (length (filter
                     (\<lambda>r. truthy (case map_of r ''any_flag'' of
                                    None \<Rightarrow> VBool False | Some v \<Rightarrow> v))
                     (get_recent_vitals_records select 100)))
                  / of_nat (length (get_recent_vitals_records select 100)))) 100) 2))"
    by (simp add: flag_percentage_of_value)
  from compute_stats_Inr[OF a]
  show "total_checks st = length (get_recent_vitals_records select 100)" by simp
  from compute_stats_Inr[OF a]
  show "flagged_cases st =
          length (filter
            (\<lambda>r. truthy (case map_of r ''any_flag'' of None \<Rightarrow> VBool False | Some v \<Rightarrow> v))
            (get_recent_vitals_records select 100))"
    by (simp add: flagged_count_def get_default_def)
next
  assume h: "recs \<noteq> [] \<and>
      (\<forall>r \<in> set recs. truthy (case map_of r ''any_flag'' of
                                None \<Rightarrow> VBool False | Some v \<Rightarrow> v))"
  then have "filter (\<lambda>r. truthy (case map_of r ''any_flag'' of
                                None \<Rightarrow> VBool False | Some v \<Rightarrow> v)) recs = recs"
    by simp
  with h show "flag_percentage_of recs = Inr (FloatNum 100)"
    by (simp add: flag_percentage_of_value percentage_all)
next
  assume h: "recs \<noteq> [] \<and>
      (\<forall>r \<in> set recs. \<not> truthy (case map_of r ''any_flag'' of
                                  None \<Rightarrow> VBool False | Some v \<Rightarrow> v))"
  then have "filter (\<lambda>r. truthy (case map_of r ''any_flag'' of
                                None \<Rightarrow> VBool False | Some v \<Rightarrow> v)) recs = []"
    by simp
  with h show "flag_percentage_of recs = Inr (FloatNum 0)"
    by (simp add: flag_percentage_of_value percentage_none)
qed

text \<open>
  The statistics with the store down; with three vitals records of which two are
  flagged, where Python gives 66.67; with 32 records of which one is flagged, where the
  percentage before rounding is 3.125 and Python gives 3.12; with two records that are
  both flagged; and with two records of which none is.
\<close>

theorem flag_percentage_safe_witness:
  "(\<exists>st. get_triage_stats (\<lambda>table n. Inl (Exception ''down'')) ''2025-01-01T00:00:00'' = Inr st
        \<and> flag_percentage st = IntNum 0 \<and> total_checks st = 0 \<and> flagged_cases st = 0)
   \<and> (\<exists>st. get_triage_stats
           (\<lambda>table n. if table = ''vitals''
              then Inr [[(''any_flag'', VBool True)], [(''pulse'', VInt 50)],
                        [(''pulse'', VInt 120), (''any_flag'', VInt 5)]]
              else Inr [[(''triage_level'', VStr ''Low'')]])
           ''2025-01-01T00:00:00'' = Inr st
        \<and> flag_percentage st = FloatNum (4691484174324859 / 70368744177664)
        \<and> total_checks st = 3 \<and> flagged_cases st = 2)
   \<and> flag_percentage_of (replicate 31 [(''any_flag'', VBool False)] @ [[(''any_flag'', VBool True)]])
       = Inr (FloatNum (3512807709348987 / 1125899906842624))
   \<and> flag_percentage_of [[(''any_flag'', VBool True)], [(''any_flag'', VStr ''yes'')]]
       = Inr (FloatNum 100)
   \<and> flag_percentage_of [[(''any_flag'', VNone)], []] = Inr (FloatNum 0)"
proof (intro conjI)
  let ?down = "\<lambda>(table :: string) (n :: nat). (Inl (Exception ''down'') :: error + row list)"
  have none: "get_recent_vitals_records ?down 100 = []"
    by (simp add: get_recent_vitals_records_def)
  have "\<exists>st. get_triage_stats ?down ''2025-01-01T00:00:00'' = Inr st"
    by (simp add: get_triage_stats_def compute_stats_def get_recent_triage_records_def
        get_recent_vitals_records_def flag_percentage_of_value)
  then obtain st where st: "get_triage_stats ?down ''2025-01-01T00:00:00'' = Inr st" by blast
  from flag_percentage_safe[THEN conjunct2, THEN conjunct2, THEN conjunct2, THEN conjunct1,
      THEN mp, OF st]
  have "flag_percentage st = IntNum 0 \<and> total_checks st = 0 \<and> flagged_cases st = 0"
    by (simp add: none)
  with st show "\<exists>st. get_triage_stats ?down ''2025-01-01T00:00:00'' = Inr st
        \<and> flag_percentage st = IntNum 0 \<and> total_checks st = 0 \<and> flagged_cases st = 0"
    by blast
next
  let ?recs = "[[(''any_flag'', VBool True)], [(''pulse'', VInt 50)],
               [(''pulse'', VInt 120), (''any_flag'', VInt 5)]] :: row list"
  let ?sel = "\<lambda>(table :: string) (n :: nat). if table = ''vitals''
              then (Inr ?recs :: error + row list)
              else Inr [[(''triage_level'', VStr ''Low'')]]"
  have recs: "get_recent_vitals_records ?sel 100 = ?recs"
    by (simp add: get_recent_vitals_records_def)
  have "\<exists>st. get_triage_stats ?sel ''2025-01-01T00:00:00'' = Inr st"
    by (simp add: get_triage_stats_def compute_stats_def get_recent_triage_records_def
        get_recent_vitals_records_def flag_percentage_of_value get_default_def Let_def)
  then obtain st where st: "get_triage_stats ?sel ''2025-01-01T00:00:00'' = Inr st" by blast
  from flag_percentage_safe[THEN conjunct2, THEN conjunct2, THEN conjunct2, THEN conjunct1,
      THEN mp, OF st]
  have "flag_percentage st = FloatNum (4691484174324859 / 70368744177664)
      \<and> total_checks st = 3 \<and> flagged_cases st = 2"
    unfolding recs by (simp add: percentage_two_thirds)
  with st show "\<exists>st. get_triage_stats ?sel ''2025-01-01T00:00:00'' = Inr st
        \<and> flag_percentage st = FloatNum (4691484174324859 / 70368744177664)
        \<and> total_checks st = 3 \<and> flagged_cases st = 2"
    by blast
next
  let ?recs = "replicate 31 [(''any_flag'', VBool False)] @ [[(''any_flag'', VBool True)]]"
  from flag_percentage_safe[where recs = "?recs", THEN conjunct1]
  show "flag_percentage_of ?recs = Inr (FloatNum (3512807709348987 / 1125899906842624))"
    by (simp add: percentage_one_of_32)
next
  show "flag_percentage_of [[(''any_flag'', VBool True)], [(''any_flag'', VStr ''yes'')]]
       = Inr (FloatNum 100)"
    by (rule mp[OF flag_percentage_safe
          [where recs = "[[(''any_flag'', VBool True)], [(''any_flag'', VStr ''yes'')]]",
           THEN conjunct2, THEN conjunct2, THEN conjunct2, THEN conjunct2, THEN conjunct1]])
       simp
next
  show "flag_percentage_of [[(''any_flag'', VNone)], []] = Inr (FloatNum 0)"
    by (rule mp[OF flag_percentage_safe
          [where recs = "[[(''any_flag'', VNone)], []]",
           THEN conjunct2, THEN conjunct2, THEN conjunct2, THEN conjunct2, THEN conjunct2]])
       simp
qed

end
